theory Spec2Isabelle
  imports Main
begin

section \<open>Values and errors\<close>

text \<open>
  The module \<^verbatim>\<open>alive_progress/animations/spinner_compiler.py\<close> compiles the frames of
  a spinner ahead of time and serves them cycle by cycle.  A Python \<^verbatim>\<open>str\<close> is a list of
  code points; the arguments a command can be scheduled with are \<^verbatim>\<open>None\<close>, integers and
  strings.
\<close>

type_synonym pystr = "nat list"

definition lit :: "string \<Rightarrow> pystr" where
  "lit s = map of_char s"

datatype pyval = PNone | PInt int | PStr pystr

text \<open>Truthiness of a value, as \<^verbatim>\<open>x or y\<close> tests it.\<close>

fun truthy :: "pyval \<Rightarrow> bool" where
  "truthy PNone = False"
| "truthy (PInt n) = (n \<noteq> 0)"
| "truthy (PStr s) = (s \<noteq> [])"

definition py_or :: "pyval \<Rightarrow> pyval \<Rightarrow> pyval" where
  "py_or a b = (if truthy a then a else b)"

datatype error =
    TypeError
  | ValueError
  | IndexError
  | AttributeError
  | NameError
  | AssertionError pystr

text \<open>\<^verbatim>\<open>max(k, v)\<close> for an integer \<^verbatim>\<open>k\<close>: comparing an integer with a string or with
  \<^verbatim>\<open>None\<close> raises \<^verbatim>\<open>TypeError\<close>.\<close>

fun py_max_int :: "int \<Rightarrow> pyval \<Rightarrow> error + int" where
  "py_max_int k (PInt v) = Inr (max k v)"
| "py_max_int k (PStr s) = Inl TypeError"
| "py_max_int k PNone = Inl TypeError"

text \<open>\<^verbatim>\<open>max\<close> and \<^verbatim>\<open>min\<close> of a sequence raise \<^verbatim>\<open>ValueError\<close> when it is empty.\<close>

fun py_max :: "nat list \<Rightarrow> error + nat" where
  "py_max [] = Inl ValueError"
| "py_max (x # xs) = Inr (fold max xs x)"

fun py_min :: "nat list \<Rightarrow> error + nat" where
  "py_min [] = Inl ValueError"
| "py_min (x # xs) = Inr (fold min xs x)"

text \<open>\<^verbatim>\<open>str(n)\<close> and \<^verbatim>\<open>hex(n).replace('0x', '')\<close> of a natural number, \<^verbatim>\<open>sep.join(xs)\<close>.\<close>

function str_nat :: "nat \<Rightarrow> pystr" where
  "str_nat n = (if n < 10 then [48 + n] else str_nat (n div 10) @ [48 + n mod 10])"
  by pat_completeness auto
termination
  by (relation "measure (\<lambda>n. n)") auto

declare str_nat.simps [simp del]

definition hex_digit :: "nat \<Rightarrow> nat" where
  "hex_digit d = (if d < 10 then 48 + d else 87 + d)"

function hex_nat :: "nat \<Rightarrow> pystr" where
  "hex_nat n = (if n < 16 then [hex_digit n] else hex_nat (n div 16) @ [hex_digit (n mod 16)])"
  by pat_completeness auto
termination
  by (relation "measure (\<lambda>n. n)") auto

declare hex_nat.simps [simp del]

fun str_join :: "pystr \<Rightarrow> pystr list \<Rightarrow> pystr" where
  "str_join sep [] = []"
| "str_join sep [x] = x"
| "str_join sep (x # y # ys) = x @ sep @ str_join sep (y # ys)"

text \<open>
  \<^verbatim>\<open>s.replace(old, new)\<close>: every non-overlapping occurrence of \<^verbatim>\<open>old\<close>, found from the
  left; an empty \<^verbatim>\<open>old\<close> matches before every character and at the end.  Arguments
  that are not strings raise \<^verbatim>\<open>TypeError\<close>.
\<close>

function str_replace :: "'a list \<Rightarrow> 'a list \<Rightarrow> 'a list \<Rightarrow> 'a list" where
  "str_replace old new s =
     (if old = [] then new @ concat (map (\<lambda>c. c # new) s)
      else if s = [] then []
      else if take (length old) s = old then new @ str_replace old new (drop (length old) s)
      else hd s # str_replace old new (tl s))"
  by pat_completeness auto
termination
  by (relation "measure (\<lambda>(old, new, s). length s)") auto

declare str_replace.simps [simp del]

fun py_str_replace :: "pyval \<Rightarrow> pyval \<Rightarrow> pystr \<Rightarrow> error + pystr" where
  "py_str_replace (PStr old) (PStr new) s = Inr (str_replace old new s)"
| "py_str_replace old new s = Inl TypeError"

text \<open>A comprehension whose body can raise: the first error ends it.\<close>

fun map_err :: "('a \<Rightarrow> error + 'b) \<Rightarrow> 'a list \<Rightarrow> error + 'b list" where
  "map_err f [] = Inr []"
| "map_err f (x # xs) =
     (case f x of
        Inl e \<Rightarrow> Inl e
      | Inr y \<Rightarrow> (case map_err f xs of Inl e \<Rightarrow> Inl e | Inr ys \<Rightarrow> Inr (y # ys)))"

section \<open>The cell and colour utilities\<close>

text \<open>
  The functions imported from \<^verbatim>\<open>..utils.cells\<close> and \<^verbatim>\<open>..utils.colors\<close> are parameters
  of the development: \<open>'r\<close> is a frame as the spinner's generator yields it, \<open>'c\<close> a cell.
  \<^verbatim>\<open>strip_marks\<close> yields the strings of a frame, \<^verbatim>\<open>DIM\<close> is called with a number and a
  format spec, \<^verbatim>\<open>RED\<close> with a number, \<^verbatim>\<open>SECTION\<close> is \<^verbatim>\<open>ORANGE_BOLD\<close>.
\<close>

record ('r, 'c) utils =
  fix_cells :: "'r \<Rightarrow> 'c list"
  join_cells :: "'c list \<Rightarrow> pystr"
  to_cells :: "pystr \<Rightarrow> 'c list"
  strip_marks :: "'c list \<Rightarrow> pystr list"
  is_wide :: "pystr \<Rightarrow> bool"
  SECTION :: "pystr \<Rightarrow> pystr"
  DIM :: "nat \<Rightarrow> pystr \<Rightarrow> pystr"
  RED :: "nat \<Rightarrow> pystr"
  BLUE :: "pystr \<Rightarrow> pystr"
  ORANGE :: "pystr \<Rightarrow> pystr"

text \<open>
  The plainest instance, for the examples: a frame arrives as its tuple of cells, a cell
  is a string, nothing is wide and the colours add nothing.
\<close>

definition plain_utils :: "(pystr list, pystr) utils" where
  "plain_utils =
     \<lparr>fix_cells = (\<lambda>frame. frame),
      join_cells = concat,
      to_cells = map (\<lambda>c. [c]),
      strip_marks = filter (\<lambda>c. c \<noteq> []),
      is_wide = (\<lambda>g. False),
      SECTION = (\<lambda>s. s),
      DIM = (\<lambda>n fmt. str_nat n),
      RED = str_nat,
      BLUE = (\<lambda>s. s),
      ORANGE = (\<lambda>s. s)\<rparr>"

section \<open>The spec\<close>

text \<open>
  The spec is a \<^verbatim>\<open>SimpleNamespace\<close>: \<^verbatim>\<open>data\<close>, \<^verbatim>\<open>natural\<close> and \<^verbatim>\<open>randomize\<close> are set
  when it is created, the other attributes only once the compiler has generated the
  spec info; an attribute that is not set yet is \<open>None\<close> here, and reading it raises
  \<^verbatim>\<open>AttributeError\<close>.  A frame is a tuple of cells, a cycle a tuple of frames.
\<close>

record 'c spec =
  spec_data :: "'c list list list"
  spec_natural :: int
  spec_randomize :: bool
  spec_cycles :: "int option"
  spec_length :: "nat option"
  spec_frames :: "nat list option"
  spec_total_frames :: "nat option"

section \<open>The commands\<close>

datatype command = Replace | Pause | Reshape | Transpose | Randomize

text \<open>
  \<^verbatim>\<open>pre_compiler_command, post_compiler_command = extra_command(False), extra_command(True)\<close>:
  the registry maps a command to its \<^verbatim>\<open>post_info\<close>.
\<close>

fun EXTRA_COMMANDS :: "command \<Rightarrow> bool" where
  "EXTRA_COMMANDS Replace = False"
| "EXTRA_COMMANDS Pause = False"
| "EXTRA_COMMANDS Reshape = False"
| "EXTRA_COMMANDS Transpose = False"
| "EXTRA_COMMANDS Randomize = True"

text \<open>The declared parameters of a command, each with its default if it has one.\<close>

fun parameters :: "command \<Rightarrow> (string \<times> pyval option) list" where
  "parameters Replace = [(''spec'', None), (''old'', None), (''new'', None)]"
| "parameters Pause = [(''spec'', None), (''n_edges'', Some PNone), (''n_middle'', Some PNone)]"
| "parameters Reshape = [(''spec'', None), (''num_frames'', None)]"
| "parameters Transpose = [(''spec'', None)]"
| "parameters Randomize = [(''spec'', None), (''cycles'', Some PNone)]"

subsection \<open>replace\<close>

definition replace ::
  "('r, 'c) utils \<Rightarrow> pyval \<Rightarrow> pyval \<Rightarrow> 'c spec \<Rightarrow> error + 'c spec" where
  "replace u old new spec =
     (case map_err (map_err (\<lambda>frame.
             case py_str_replace old new (join_cells u frame) of
               Inl e \<Rightarrow> Inl e
             | Inr replaced \<Rightarrow> Inr (to_cells u replaced))) (spec_data spec) of
        Inl e \<Rightarrow> Inl e
      | Inr d \<Rightarrow> Inr (spec\<lparr>spec_data := d\<rparr>))"

subsection \<open>pause\<close>

definition pause :: "pyval \<Rightarrow> pyval \<Rightarrow> 'c spec \<Rightarrow> error + 'c spec" where
  "pause n_edges n_middle spec =
     (case py_max_int 1 (py_or n_edges (PInt 6)) of
        Inl e \<Rightarrow> Inl e
      | Inr n_edges' \<Rightarrow>
          (case py_max_int 1 (py_or n_middle (PInt 1)) of
             Inl e \<Rightarrow> Inl e
           | Inr n_middle' \<Rightarrow>
               Inr (spec\<lparr>spec_data :=
                 map (\<lambda>cycle.
                   concat (map (\<lambda>(i, frame).
                     replicate
                       (nat (if int i = 0 \<or> int i = int (length cycle) - 1
                             then n_edges' else n_middle'))
                       frame) (enumerate 0 cycle)))
                   (spec_data spec)\<rparr>)))"

subsection \<open>reshape\<close>

text \<open>
  \<^verbatim>\<open>iter(lambda: tuple(islice(flatten, num_frames)), ())\<close> takes up to \<^verbatim>\<open>num_frames\<close>
  frames from the one shared iterator per call and stops at the first empty tuple.
\<close>

function reshape_groups :: "nat \<Rightarrow> 'a list \<Rightarrow> 'a list list" where
  "reshape_groups n flatten =
     (if take n flatten = [] then []
      else take n flatten # reshape_groups n (drop n flatten))"
  by pat_completeness auto
termination
  by (relation "measure (\<lambda>(n, flatten). length flatten)") auto

declare reshape_groups.simps [simp del]

text \<open>
  \<^verbatim>\<open>islice\<close> refuses a stop that is neither \<^verbatim>\<open>None\<close> nor an integer from 0 on with
  \<^verbatim>\<open>ValueError\<close>, raised by the first call of the lambda whatever the data; with
  \<^verbatim>\<open>None\<close> it takes all the frames at once.  (The stop is taken within the platform's
  index range.)
\<close>

fun reshape :: "pyval \<Rightarrow> 'c spec \<Rightarrow> error + 'c spec" where
  "reshape (PInt num_frames) spec =
     (if num_frames < 0 then Inl ValueError
      else Inr (spec\<lparr>spec_data :=
             reshape_groups (nat num_frames) (concat (spec_data spec))\<rparr>))"
| "reshape PNone spec =
     Inr (spec\<lparr>spec_data :=
            (if concat (spec_data spec) = [] then [] else [concat (spec_data spec)])\<rparr>)"
| "reshape (PStr s) spec = Inl ValueError"

subsection \<open>transpose\<close>

text \<open>
  \<^verbatim>\<open>zip(*data)\<close> yields one tuple per position for as long as every cycle has a frame
  there; with no cycle at all it yields nothing.
\<close>

function zip_star :: "'a list list \<Rightarrow> 'a list list" where
  "zip_star xss =
     (if xss = [] \<or> [] \<in> set xss then []
      else map hd xss # zip_star (map tl xss))"
  by pat_completeness auto
termination
  by (relation "measure (\<lambda>xss. length (hd xss))") (auto simp: hd_map neq_Nil_conv)

declare zip_star.simps [simp del]

definition transpose_cmd :: "'c spec \<Rightarrow> error + 'c spec" where
  "transpose_cmd spec = Inr (spec\<lparr>spec_data := zip_star (spec_data spec)\<rparr>)"

subsection \<open>randomize\<close>

text \<open>
  \<^verbatim>\<open>max(0, cycles or 0) or spec.cycles\<close> is evaluated before the attributes are updated;
  \<^verbatim>\<open>spec.cycles\<close> is read only when the first operand is 0.
\<close>

definition randomize :: "pyval \<Rightarrow> 'c spec \<Rightarrow> error + 'c spec" where
  "randomize cycles spec =
     (case py_max_int 0 (py_or cycles (PInt 0)) of
        Inl e \<Rightarrow> Inl e
      | Inr n \<Rightarrow>
          if n \<noteq> 0 then Inr (spec\<lparr>spec_randomize := True, spec_cycles := Some n\<rparr>)
          else (case spec_cycles spec of
                  None \<Rightarrow> Inl AttributeError
                | Some c \<Rightarrow> Inr (spec\<lparr>spec_randomize := True, spec_cycles := Some c\<rparr>)))"

subsection \<open>Calling a scheduled command\<close>

text \<open>
  Binding positional and keyword arguments to parameters that are all
  positional-or-keyword, as \<^verbatim>\<open>inspect.Signature.bind\<close> and a call do: too many
  positional arguments, a keyword for a parameter already given by position, an unknown
  keyword and a missing argument without default all raise \<^verbatim>\<open>TypeError\<close>.  The
  keyword arguments are a \<^verbatim>\<open>dict\<close>, listed here with their keys.
\<close>

fun bind_args ::
  "(string \<times> pyval option) list \<Rightarrow> pyval list \<Rightarrow> (string \<times> pyval) list \<Rightarrow>
     error + (string \<times> pyval) list" where
  "bind_args [] [] kwargs = (if kwargs = [] then Inr [] else Inl TypeError)"
| "bind_args [] (a # as) kwargs = Inl TypeError"
| "bind_args ((name, dflt) # ps) (a # as) kwargs =
     (if name \<in> set (map fst kwargs) then Inl TypeError
      else (case bind_args ps as kwargs of
              Inl e \<Rightarrow> Inl e
            | Inr b \<Rightarrow> Inr ((name, a) # b)))"
| "bind_args ((name, dflt) # ps) [] kwargs =
     (case map_of kwargs name of
        Some v \<Rightarrow>
          (case bind_args ps [] (filter (\<lambda>kv. fst kv \<noteq> name) kwargs) of
             Inl e \<Rightarrow> Inl e
           | Inr b \<Rightarrow> Inr ((name, v) # b))
      | None \<Rightarrow>
          (case dflt of
             None \<Rightarrow> Inl TypeError
           | Some d \<Rightarrow>
               (case bind_args ps [] kwargs of
                  Inl e \<Rightarrow> Inl e
                | Inr b \<Rightarrow> Inr ((name, d) # b))))"

definition arg :: "(string \<times> pyval) list \<Rightarrow> string \<Rightarrow> pyval" where
  "arg b name = (case map_of b name of Some v \<Rightarrow> v | None \<Rightarrow> PNone)"

fun run_command ::
  "('r, 'c) utils \<Rightarrow> command \<Rightarrow> (string \<times> pyval) list \<Rightarrow> 'c spec \<Rightarrow> error + 'c spec" where
  "run_command u Replace b spec = replace u (arg b ''old'') (arg b ''new'') spec"
| "run_command u Pause b spec = pause (arg b ''n_edges'') (arg b ''n_middle'') spec"
| "run_command u Reshape b spec = reshape (arg b ''num_frames'') spec"
| "run_command u Transpose b spec = transpose_cmd spec"
| "run_command u Randomize b spec = randomize (arg b ''cycles'') spec"

text \<open>
  \<^verbatim>\<open>command(spec, *args, **kwargs)\<close>; in the binding, \<open>PInt 1\<close> stands for the spec, as
  in \<^verbatim>\<open>signature(command).bind(1, *args, **kwargs)\<close>.
\<close>

type_synonym call = "command \<times> pyval list \<times> (string \<times> pyval) list"

fun call_command :: "('r, 'c) utils \<Rightarrow> call \<Rightarrow> 'c spec \<Rightarrow> error + 'c spec" where
  "call_command u (command, args, kwargs) spec =
     (case bind_args (parameters command) (PInt 1 # args) kwargs of
        Inl e \<Rightarrow> Inl e
      | Inr b \<Rightarrow> run_command u command b spec)"

fun apply_extra_commands ::
  "('r, 'c) utils \<Rightarrow> 'c spec \<Rightarrow> call list \<Rightarrow> error + 'c spec" where
  "apply_extra_commands u spec [] = Inr spec"
| "apply_extra_commands u spec (c # extra_commands) =
     (case call_command u c spec of
        Inl e \<Rightarrow> Inl e
      | Inr spec' \<Rightarrow> apply_extra_commands u spec' extra_commands)"

section \<open>Rendering the frames\<close>

text \<open>
  What \<^verbatim>\<open>render_frames\<close> prints is the list of the strings given to \<^verbatim>\<open>print\<close>, one per
  call (the empty string for \<^verbatim>\<open>print()\<close>).
\<close>

definition format_codepoints :: "('r, 'c) utils \<Rightarrow> pystr list \<Rightarrow> pystr" where
  "format_codepoints u frame =
     lit '' -> '' @ RED u (sum_list (map length frame)) @ lit '':['' @
     str_join (lit ''|'')
       (map (\<lambda>g. (if is_wide u g then ORANGE u else BLUE u)
                   (str_join (lit '' '') (map hex_nat g))) frame) @
     lit '']''"

definition render_line ::
  "('r, 'c) utils \<Rightarrow> pystr \<Rightarrow> pystr \<Rightarrow> bool \<Rightarrow> nat \<Rightarrow> nat \<Rightarrow> 'c list \<Rightarrow> pystr" where
  "render_line u lfmt wfmt show_codepoints li wi fragment =
     (let frame = strip_marks u fragment in
      DIM u li lfmt @ lit '' |'' @ concat frame @ lit ''| '' @ DIM u wi wfmt @
      (if show_codepoints then format_codepoints u frame else []))"

definition render_cycle ::
  "('r, 'c) utils \<Rightarrow> pystr \<Rightarrow> pystr \<Rightarrow> bool \<Rightarrow> nat \<Rightarrow> nat \<Rightarrow> 'c list list \<Rightarrow> pystr" where
  "render_cycle u lfmt wfmt show_codepoints i whole_index cycle =
     lit ''cycle '' @ str_nat i @ [10] @
     str_join [10]
       (map (\<lambda>(k, fragment).
               render_line u lfmt wfmt show_codepoints (1 + k) (whole_index + k) fragment)
          (enumerate 0 cycle))"

text \<open>The loop over \<^verbatim>\<open>enumerate(spec.data, 1)\<close>; \<^verbatim>\<open>whole_index\<close> counts on across the cycles.\<close>

fun render_cycles ::
  "('r, 'c) utils \<Rightarrow> pystr \<Rightarrow> pystr \<Rightarrow> bool \<Rightarrow> nat \<Rightarrow> nat \<Rightarrow> 'c list list list \<Rightarrow>
     pystr list" where
  "render_cycles u lfmt wfmt show_codepoints i whole_index [] = []"
| "render_cycles u lfmt wfmt show_codepoints i whole_index (cycle # rest) =
     (if i > 1 then [[]] else []) @
     [render_cycle u lfmt wfmt show_codepoints i whole_index cycle] @
     render_cycles u lfmt wfmt show_codepoints (Suc i) (whole_index + length cycle) rest"

text \<open>The result is what was printed and the error that ended the printing, if any.\<close>

definition render_frames ::
  "('r, 'c) utils \<Rightarrow> 'c spec \<Rightarrow> bool \<Rightarrow> pystr list \<times> error option" where
  "render_frames u spec show_codepoints =
     (let title = [[10] @ SECTION u (lit ''Frame data'')] in
      case spec_frames spec of
        None \<Rightarrow> (title, Some AttributeError)
      | Some frames \<Rightarrow>
          (case py_max frames of
             Inl e \<Rightarrow> (title, Some e)
           | Inr most \<Rightarrow>
               (case spec_total_frames spec of
                  None \<Rightarrow> (title, Some AttributeError)
                | Some total_frames \<Rightarrow>
                    (title @
                     render_cycles u
                       (lit ''>'' @ str_nat (1 + length (str_nat most)))
                       (lit ''<'' @ str_nat (length (str_nat total_frames)))
                       show_codepoints 1 1 (spec_data spec),
                     None))))"

section \<open>The compiler\<close>

definition new_spec :: "('r, 'c) utils \<Rightarrow> 'r list list \<Rightarrow> int \<Rightarrow> 'c spec" where
  "new_spec u gen natural =
     \<lparr>spec_data = map (map (fix_cells u)) gen, spec_natural = natural,
      spec_randomize = False, spec_cycles = None, spec_length = None,
      spec_frames = None, spec_total_frames = None\<rparr>"

text \<open>
  The spec info; \<^verbatim>\<open>spec.data[0][0]\<close> raises \<^verbatim>\<open>IndexError\<close> when there is no cycle or
  the first cycle has no frame.
\<close>

definition spec_info :: "'c spec \<Rightarrow> error + 'c spec" where
  "spec_info spec =
     (let frames = map length (spec_data spec) in
      case spec_data spec of
        [] \<Rightarrow> Inl IndexError
      | cycle # _ \<Rightarrow>
          (case cycle of
             [] \<Rightarrow> Inl IndexError
           | frame # _ \<Rightarrow>
               Inr (spec\<lparr>spec_cycles := Some (int (length (spec_data spec))),
                          spec_length := Some (length frame),
                          spec_frames := Some frames,
                          spec_total_frames := Some (sum_list frames)\<rparr>)))"

definition different_lengths :: pystr where
  "different_lengths = lit ''Different cell lengths detected in frame data.''"

text \<open>
  The result is what was printed and either the error raised or the spec.  The message
  of the assertion is \<^verbatim>\<open>render_frames(spec, True) or '...'\<close>, evaluated only when the
  assertion fails: \<^verbatim>\<open>render_frames\<close> prints and returns \<^verbatim>\<open>None\<close>.
\<close>

definition spinner_compiler ::
  "('r, 'c) utils \<Rightarrow> 'r list list \<Rightarrow> int \<Rightarrow> call list \<Rightarrow> pystr list \<times> (error + 'c spec)" where
  "spinner_compiler u gen natural extra_commands =
     (case apply_extra_commands u (new_spec u gen natural) extra_commands of
        Inl e \<Rightarrow> ([], Inl e)
      | Inr spec1 \<Rightarrow>
          (case spec_info spec1 of
             Inl e \<Rightarrow> ([], Inl e)
           | Inr spec2 \<Rightarrow>
               (case py_max (map length (concat (spec_data spec2))) of
                  Inl e \<Rightarrow> ([], Inl e)
                | Inr longest \<Rightarrow>
                    (case py_min (map length (concat (spec_data spec2))) of
                       Inl e \<Rightarrow> ([], Inl e)
                     | Inr shortest \<Rightarrow>
                         if longest = shortest then ([], Inr spec2)
                         else (case render_frames u spec2 True of
                                 (out, Some e) \<Rightarrow> (out, Inl e)
                               | (out, None) \<Rightarrow>
                                   (out, Inl (AssertionError different_lengths)))))))"

section \<open>The runner\<close>

text \<open>
  The closures of \<^verbatim>\<open>spinner_runner_factory\<close> share the spec; \<open>run_attrs\<close> is the copy of
  its attributes put on the runner before the commands run, \<open>run_randomize\<close> records which
  cycle generator was created, \<open>run_pos\<close> is the position of \<^verbatim>\<open>ordered_cycle_data\<close> in
  \<^verbatim>\<open>spec.data\<close>.
\<close>

record 'c runner =
  run_spec :: "'c spec"
  run_attrs :: "'c spec"
  run_randomize :: bool
  run_pos :: nat

text \<open>
  The cycle generator is chosen from \<^verbatim>\<open>spec.randomize\<close> before the commands are applied.
  The module defines no \<^verbatim>\<open>sequential\<close>, so evaluating the default of an empty
  \<^verbatim>\<open>extra_commands\<close> raises \<^verbatim>\<open>NameError\<close>.
\<close>

definition spinner_runner_factory ::
  "('r, 'c) utils \<Rightarrow> 'c spec \<Rightarrow> call list \<Rightarrow> error + 'c runner" where
  "spinner_runner_factory u spec extra_commands =
     (if extra_commands = [] then Inl NameError
      else (case apply_extra_commands u spec extra_commands of
              Inl e \<Rightarrow> Inl e
            | Inr spec' \<Rightarrow>
                Inr \<lparr>run_spec = spec', run_attrs = spec,
                     run_randomize = spec_randomize spec, run_pos = 0\<rparr>))"

text \<open>
  \<^verbatim>\<open>while True: yield from spec.data\<close>: the next cycle of the current pass, a new pass
  when the current one is over.  With no cycle at all the loop never yields.
\<close>

partial_function (option) ordered_cycle_data ::
  "'a list \<Rightarrow> nat \<Rightarrow> ('a \<times> nat) option" where
  "ordered_cycle_data d i =
     (if i < length d then Some (d ! i, Suc i) else ordered_cycle_data d 0)"

text \<open>
  \<^verbatim>\<open>random.choice(seq)\<close> is \<^verbatim>\<open>seq[randbelow(len(seq))]\<close> and raises \<^verbatim>\<open>IndexError\<close> on an
  empty sequence; \<open>r\<close> is the number the random source gives, reduced to an index.
\<close>

definition random_choice :: "nat \<Rightarrow> 'a list \<Rightarrow> error + 'a" where
  "random_choice r seq = (if seq = [] then Inl IndexError else Inr (seq ! (r mod length seq)))"

text \<open>
  One call of the runner whose generator is then iterated: the frames of the cycle that
  \<^verbatim>\<open>next(cycle_gen)\<close> gives, and the runner afterwards; \<open>None\<close> when the call never
  returns.
\<close>

definition spinner_runner ::
  "'c runner \<Rightarrow> nat \<Rightarrow> (error + 'c list list \<times> 'c runner) option" where
  "spinner_runner run r =
     (if run_randomize run then
        (case random_choice r (spec_data (run_spec run)) of
           Inl e \<Rightarrow> Some (Inl e)
         | Inr cycle \<Rightarrow> Some (Inr (cycle, run)))
      else
        (case ordered_cycle_data (spec_data (run_spec run)) (run_pos run) of
           None \<Rightarrow> None
         | Some (cycle, pos) \<Rightarrow> Some (Inr (cycle, run\<lparr>run_pos := pos\<rparr>))))"

section \<open>The controller\<close>

text \<open>
  \<^verbatim>\<open>inner_controller(spinner_inner_factory, op_params, extra_commands)\<close> of a
  \<^verbatim>\<open>compiler_controller(natural=...)\<close> that does not skip the compiler.  The factory
  gives the cycles for an actual length and the operational parameters;
  \<^verbatim>\<open>extra_commands\<close> is the dict from \<^verbatim>\<open>post_info\<close> to the tuple of scheduled calls,
  read with \<^verbatim>\<open>get(key, ())\<close>.
\<close>

record 'r controller =
  ctl_natural :: int
  ctl_spinner_inner_factory :: "pyval \<Rightarrow> (string \<times> pyval) list \<Rightarrow> 'r list list"
  ctl_op_params :: "(string \<times> pyval) list"
  ctl_extra_commands :: "bool \<Rightarrow> call list"

definition schedule_command ::
  "'r controller \<Rightarrow> command \<Rightarrow> pyval list \<Rightarrow> (string \<times> pyval) list \<Rightarrow>
     error + 'r controller" where
  "schedule_command ctl command args kwargs =
     (case bind_args (parameters command) (PInt 1 # args) kwargs of
        Inl e \<Rightarrow> Inl e
      | Inr b \<Rightarrow>
          (let cmd_type = EXTRA_COMMANDS command in
           Inr (ctl\<lparr>ctl_extra_commands :=
                  (ctl_extra_commands ctl)
                    (cmd_type := ctl_extra_commands ctl cmd_type @ [(command, args, kwargs)])\<rparr>)))"

definition compiler_dispatcher ::
  "('r, 'c) utils \<Rightarrow> 'r controller \<Rightarrow> pyval \<Rightarrow> pystr list \<times> (error + 'c runner)" where
  "compiler_dispatcher u ctl actual_length =
     (case spinner_compiler u (ctl_spinner_inner_factory ctl actual_length (ctl_op_params ctl))
             (ctl_natural ctl) (ctl_extra_commands ctl True) of
        (out, Inl e) \<Rightarrow> (out, Inl e)
      | (out, Inr spec) \<Rightarrow>
          (out, spinner_runner_factory u spec (ctl_extra_commands ctl False)))"

section \<open>The commands in the words of their description\<close>




text \<open>
  The arguments of a scheduled command match its declared signature without the leading
  \<^verbatim>\<open>spec\<close>: there are no more positional arguments than parameters, every keyword names a
  parameter that no positional argument has filled, and every parameter without a
  default is given.
\<close>

definition accepts :: "command \<Rightarrow> pyval list \<Rightarrow> (string \<times> pyval) list \<Rightarrow> bool" where
  "accepts command args kwargs \<longleftrightarrow>
     (let declared = tl (parameters command); by_keyword = drop (length args) declared in
      length args \<le> length declared
      \<and> (\<forall>k\<in>set (map fst kwargs). k \<in> set (map fst by_keyword))
      \<and> (\<forall>(name, dflt)\<in>set by_keyword. dflt = None \<longrightarrow> name \<in> set (map fst kwargs)))"

text \<open>
  The runner called once per element of the list, the element being the number the
  random source gives at that call: the cycles yielded, in order, and the runner at the
  end.
\<close>

fun spinner_runner_calls ::
  "'c runner \<Rightarrow> nat list \<Rightarrow> (error + 'c list list list \<times> 'c runner) option" where
  "spinner_runner_calls run [] = Some (Inr ([], run))"
| "spinner_runner_calls run (r # rs) =
     (case spinner_runner run r of
        None \<Rightarrow> None
      | Some (Inl e) \<Rightarrow> Some (Inl e)
      | Some (Inr (cycle, run')) \<Rightarrow>
          (case spinner_runner_calls run' rs of
             None \<Rightarrow> None
           | Some (Inl e) \<Rightarrow> Some (Inl e)
           | Some (Inr (cycles, run'')) \<Rightarrow> Some (Inr (cycle # cycles, run''))))"

section \<open>An example controller\<close>

text \<open>
  A spinner of one cycle with the frames \<^verbatim>\<open>[--]\<close> and \<^verbatim>\<open>[==]\<close>, with nothing scheduled.
\<close>

definition bars :: "pystr list controller" where
  "bars =
     \<lparr>ctl_natural = 4,
      ctl_spinner_inner_factory =
        (\<lambda>actual_length params. [[[[91], [45], [45], [93]], [[91], [61], [61], [93]]]]),
      ctl_op_params = [],
      ctl_extra_commands = (\<lambda>post_info. [])\<rparr>"

section \<open>Properties of reshape\<close>


lemma reshape_groups_zero: "reshape_groups 0 xs = []"
  by (simp add: reshape_groups.simps)










section \<open>Properties of replace\<close>

lemma map_err_Inr: "map_err (\<lambda>x. Inr (f x)) xs = Inr (map f xs)"
  by (induction xs) simp_all

lemma map_err_Inr_fun: "map_err (\<lambda>x. Inr (f x)) = (\<lambda>xs. Inr (map f xs))"
  by (rule ext) (rule map_err_Inr)

lemma map_err_length: "map_err f xs = Inr ys \<Longrightarrow> length ys = length xs"
  by (induction xs arbitrary: ys) (auto split: sum.splits)

text \<open>
  C10: for strings \<^verbatim>\<open>old\<close> and \<^verbatim>\<open>new\<close>, \<^verbatim>\<open>replace\<close> succeeds and puts in the place of every
  frame the cells of its text with the occurrences of \<^verbatim>\<open>old\<close> replaced: the number of cycles
  and the number of frames of every cycle stay as they were.
\<close>

theorem replace_keeps_shape:
  "\<exists>d. replace u (PStr old) (PStr new) spec = Inr (spec\<lparr>spec_data := d\<rparr>)
      \<and> d = map (map (\<lambda>frame. to_cells u (str_replace old new (join_cells u frame)))) (spec_data spec)
      \<and> length d = length (spec_data spec)
      \<and> map length d = map length (spec_data spec)"
proof -
  have "map_err (map_err (\<lambda>frame.
            case py_str_replace (PStr old) (PStr new) (join_cells u frame) of
              Inl e \<Rightarrow> Inl e
            | Inr replaced \<Rightarrow> Inr (to_cells u replaced))) (spec_data spec)
      = Inr (map (map (\<lambda>frame. to_cells u (str_replace old new (join_cells u frame)))) (spec_data spec))"
    by (simp add: map_err_Inr_fun)
  then show ?thesis by (simp add: replace_def)
qed

text \<open>The frames \<^verbatim>\<open>[--]\<close> and \<^verbatim>\<open>[==]\<close> of one cycle, with \<^verbatim>\<open>-\<close> replaced by \<^verbatim>\<open>=\<close>.\<close>

theorem replace_keeps_shape_witness:
  "\<exists>d. replace plain_utils (PStr [45]) (PStr [61])
          (new_spec plain_utils [[[[91], [45], [45], [93]], [[91], [61], [61], [93]]]] 4)
        = Inr (new_spec plain_utils [[[[91], [45], [45], [93]], [[91], [61], [61], [93]]]] 4
                \<lparr>spec_data := d\<rparr>)
      \<and> d = [[[[91], [61], [61], [93]], [[91], [61], [61], [93]]]]
      \<and> map length d = [2]"
  using replace_keeps_shape[of plain_utils "[45]" "[61]"
      "new_spec plain_utils [[[[91], [45], [45], [93]], [[91], [61], [61], [93]]]] 4"]
  by (simp add: new_spec_def plain_utils_def str_replace.simps)

section \<open>Properties of transpose\<close>









section \<open>Properties of pause\<close>






section \<open>Properties of the compiler\<close>








lemma spec_info_no_frame: "spec_data spec = [] # rest \<Longrightarrow> spec_info spec = Inl IndexError"
  by (simp add: spec_info_def)

subsection \<open>What is printed when the lengths differ\<close>








subsection \<open>The check of the lengths\<close>




subsection \<open>No cycle at all\<close>

lemma map_err_Nil_iff: "map_err f xs = Inr [] \<longleftrightarrow> xs = []"
  by (cases xs) (auto split: sum.splits)





section \<open>Properties of randomize\<close>




section \<open>Properties of the runner\<close>

lemma ordered_in_pass: "i < length d \<Longrightarrow> ordered_cycle_data d i = Some (d ! i, Suc i)"
  by (subst ordered_cycle_data.simps) simp

lemma ordered_new_pass:
  "d \<noteq> [] \<Longrightarrow> length d \<le> i \<Longrightarrow> ordered_cycle_data d i = Some (d ! 0, Suc 0)"
  by (subst ordered_cycle_data.simps) (simp add: ordered_in_pass)

lemma ordered_Some_cycles:
  assumes "ordered_cycle_data d i = Some y"
  shows "d \<noteq> []"
  by (rule ordered_cycle_data.raw_induct[where P = "\<lambda>d i y. d \<noteq> []", OF _ assms])
    (auto split: if_splits)

lemma ordered_no_cycles: "d = [] \<Longrightarrow> ordered_cycle_data d i = None"
  using ordered_Some_cycles[of d i] by (cases "ordered_cycle_data d i") auto

lemma sequential_step:
  assumes "\<not> run_randomize run" and "spec_data (run_spec run) \<noteq> []"
    and "run_pos run \<le> length (spec_data (run_spec run))"
  shows "\<exists>pos. spinner_runner run r
           = Some (Inr (spec_data (run_spec run) ! (run_pos run mod length (spec_data (run_spec run))),
                        run\<lparr>run_pos := pos\<rparr>))
         \<and> pos \<le> length (spec_data (run_spec run))
         \<and> pos mod length (spec_data (run_spec run))
             = Suc (run_pos run) mod length (spec_data (run_spec run))"
proof (cases "run_pos run < length (spec_data (run_spec run))")
  case True
  with assms have "spinner_runner run r
      = Some (Inr (spec_data (run_spec run) ! (run_pos run mod length (spec_data (run_spec run))),
                   run\<lparr>run_pos := Suc (run_pos run)\<rparr>))"
    by (simp add: spinner_runner_def ordered_in_pass)
  with True show ?thesis by (intro exI[of _ "Suc (run_pos run)"]) simp
next
  case False
  with assms(3) have eq: "run_pos run = length (spec_data (run_spec run))" by simp
  with assms(1,2) have "spinner_runner run r
      = Some (Inr (spec_data (run_spec run) ! 0, run\<lparr>run_pos := Suc 0\<rparr>))"
    by (simp add: spinner_runner_def ordered_new_pass)
  moreover have "Suc 0 \<le> length (spec_data (run_spec run))"
    using assms(2) by (cases "spec_data (run_spec run)") simp_all
  ultimately show ?thesis using eq by (auto simp: mod_Suc)
qed

lemma sequential_calls:
  assumes "\<not> run_randomize run" and "spec_data (run_spec run) \<noteq> []"
    and "run_pos run \<le> length (spec_data (run_spec run))"
  shows "\<exists>run'. spinner_runner_calls run rs
           = Some (Inr (map (\<lambda>n. spec_data (run_spec run)
                                   ! ((run_pos run + n) mod length (spec_data (run_spec run))))
                          [0..<length rs], run'))"
  using assms
proof (induction rs arbitrary: run)
  case Nil
  then show ?case by simp
next
  case (Cons r rs)
  let ?d = "spec_data (run_spec run)"
  from sequential_step[OF Cons.prems, of r] obtain pos where
    s: "spinner_runner run r = Some (Inr (?d ! (run_pos run mod length ?d), run\<lparr>run_pos := pos\<rparr>))"
    and le: "pos \<le> length ?d" and m: "pos mod length ?d = Suc (run_pos run) mod length ?d"
    by blast
  let ?run = "run\<lparr>run_pos := pos\<rparr>"
  from Cons.IH[of ?run] Cons.prems le obtain run' where
    c: "spinner_runner_calls ?run rs
          = Some (Inr (map (\<lambda>n. ?d ! ((pos + n) mod length ?d)) [0..<length rs], run'))"
    by auto
  have "\<And>n. (pos + n) mod length ?d = (run_pos run + Suc n) mod length ?d"
  proof -
    fix n
    have "(pos + n) mod length ?d = (pos mod length ?d + n) mod length ?d"
      by (simp add: mod_add_left_eq)
    also have "\<dots> = (Suc (run_pos run) + n) mod length ?d"
      by (simp only: m mod_add_left_eq)
    finally show "(pos + n) mod length ?d = (run_pos run + Suc n) mod length ?d" by simp
  qed
  then have "map (\<lambda>n. ?d ! ((pos + n) mod length ?d)) [0..<length rs]
      = map (\<lambda>n. ?d ! ((run_pos run + Suc n) mod length ?d)) [0..<length rs]"
    by simp
  also have "\<dots> = map (\<lambda>n. ?d ! ((run_pos run + n) mod length ?d)) (map Suc [0..<length rs])"
    by (simp add: comp_def)
  finally have tl: "map (\<lambda>n. ?d ! ((pos + n) mod length ?d)) [0..<length rs]
      = map (\<lambda>n. ?d ! ((run_pos run + n) mod length ?d)) (map Suc [0..<length rs])" .
  have "[0..<length (r # rs)] = 0 # map Suc [0..<length rs]"
    by (simp add: upt_conv_Cons map_Suc_upt del: upt_Suc)
  with s c tl show ?case by simp
qed

lemma spinner_runner_factory_Inr:
  "spinner_runner_factory u spec cmds = Inr run \<Longrightarrow>
     cmds \<noteq> [] \<and> apply_extra_commands u spec cmds = Inr (run_spec run)
     \<and> run_attrs run = spec \<and> run_randomize run = spec_randomize spec \<and> run_pos run = 0"
  by (auto simp: spinner_runner_factory_def split: if_splits sum.splits)

text \<open>
  A runner made from a spec that is not randomized, with at least one command for the
  factory: call \<open>n\<close>, counting from 0, yields the cycle \<open>n mod\<close> the number of cycles.
\<close>

lemma sequential_runner_order:
  assumes "spinner_runner_factory u spec cmds = Inr run" and "\<not> spec_randomize spec"
    and "spec_data (run_spec run) \<noteq> []"
  shows "\<exists>run'. spinner_runner_calls run rs
           = Some (Inr (map (\<lambda>n. spec_data (run_spec run) ! (n mod length (spec_data (run_spec run))))
                          [0..<length rs], run'))"
proof -
  from spinner_runner_factory_Inr[OF assms(1)] assms(2)
  have "\<not> run_randomize run" "run_pos run = 0" by simp_all
  with sequential_calls[of run rs] assms(3) show ?thesis by simp
qed

text \<open>Three cycles and a command for the factory: four calls yield the cycles 0, 1, 2, 0.\<close>

lemma sequential_runner_example:
  "\<exists>run run'. spinner_runner_factory plain_utils
      \<lparr>spec_data = [[[[97::nat]]], [[[98]]], [[[99]]]], spec_natural = 1,
       spec_randomize = False, spec_cycles = Some 3, spec_length = Some 1,
       spec_frames = Some [1, 1, 1], spec_total_frames = Some 3\<rparr>
      [(Pause, [PInt 1, PInt 1], [])] = Inr run
    \<and> spinner_runner_calls run [0, 0, 0, 0]
        = Some (Inr ([[[[97]]], [[[98]]], [[[99]]], [[[97]]]], run'))"
proof -
  let ?s = "\<lparr>spec_data = [[[[97::nat]]], [[[98]]], [[[99]]]], spec_natural = 1,
             spec_randomize = False, spec_cycles = Some 3, spec_length = Some 1,
             spec_frames = Some [1, 1, 1], spec_total_frames = Some 3\<rparr>"
  let ?r = "\<lparr>run_spec = ?s, run_attrs = ?s, run_randomize = False, run_pos = 0\<rparr>"
  have f: "spinner_runner_factory plain_utils ?s [(Pause, [PInt 1, PInt 1], [])] = Inr ?r"
    by (simp add: spinner_runner_factory_def pause_def py_or_def arg_def enumerate_eq_zip)
  have "\<not> spec_randomize ?s" "spec_data (run_spec ?r) \<noteq> []" by simp_all
  moreover have "[0..<length [0::nat, 0, 0, 0]] = [0, 1, 2, 3]" by code_simp
  ultimately show ?thesis
    using sequential_runner_order[OF f, of "[0, 0, 0, 0]"] f by auto
qed

text \<open>
  C2: with no command for the factory, the case in which the runner is to play the
  cycles in order by default, \<^verbatim>\<open>spinner_runner_factory\<close> raises \<^verbatim>\<open>NameError\<close> and returns no
  runner, whatever the spec.
\<close>

theorem spinner_runner_factory_default:
  "spinner_runner_factory u spec [] = Inl NameError"
  by (simp add: spinner_runner_factory_def)

text \<open>A compiled spec of three cycles and no command.\<close>

theorem spinner_runner_factory_default_witness:
  "spinner_runner_factory plain_utils
      \<lparr>spec_data = [[[[97::nat]]], [[[98]]], [[[99]]]], spec_natural = 1,
       spec_randomize = False, spec_cycles = Some 3, spec_length = Some 1,
       spec_frames = Some [1, 1, 1], spec_total_frames = Some 3\<rparr> []
     = Inl NameError"
  using spinner_runner_factory_default[of plain_utils
      "\<lparr>spec_data = [[[[97::nat]]], [[[98]]], [[[99]]]], spec_natural = 1,
       spec_randomize = False, spec_cycles = Some 3, spec_length = Some 1,
       spec_frames = Some [1, 1, 1], spec_total_frames = Some 3\<rparr>"]
  by simp

text \<open>
  C7: a call of a randomized runner yields one of the cycles of its spec, the cycle at
  some index below the number of cycles, and leaves the runner as it was: the choice
  rests on the random source alone, every cycle can come at every call, and so the same
  cycle can come twice in a row.  With no cycle the call raises \<^verbatim>\<open>IndexError\<close>.
\<close>

theorem random_runner_cycle:
  assumes "run_randomize run"
  shows "(spec_data (run_spec run) = [] \<longrightarrow> spinner_runner run r = Some (Inl IndexError))
       \<and> (spec_data (run_spec run) \<noteq> [] \<longrightarrow>
            (\<exists>i<length (spec_data (run_spec run)).
               spinner_runner run r = Some (Inr (spec_data (run_spec run) ! i, run)))
          \<and> (\<forall>i<length (spec_data (run_spec run)).
               \<exists>r'. spinner_runner run r' = Some (Inr (spec_data (run_spec run) ! i, run))))"
proof (intro conjI impI)
  assume "spec_data (run_spec run) = []"
  with assms show "spinner_runner run r = Some (Inl IndexError)"
    by (simp add: spinner_runner_def random_choice_def)
next
  assume ne: "spec_data (run_spec run) \<noteq> []"
  let ?d = "spec_data (run_spec run)"
  from ne have "r mod length ?d < length ?d" by simp
  moreover from assms ne have "spinner_runner run r = Some (Inr (?d ! (r mod length ?d), run))"
    by (simp add: spinner_runner_def random_choice_def)
  ultimately show "\<exists>i<length ?d. spinner_runner run r = Some (Inr (?d ! i, run))" by blast
next
  assume ne: "spec_data (run_spec run) \<noteq> []"
  let ?d = "spec_data (run_spec run)"
  show "\<forall>i<length ?d. \<exists>r'. spinner_runner run r' = Some (Inr (?d ! i, run))"
  proof (intro allI impI)
    fix i assume "i < length ?d"
    with assms ne have "spinner_runner run i = Some (Inr (?d ! i, run))"
      by (simp add: spinner_runner_def random_choice_def)
    then show "\<exists>r'. spinner_runner run r' = Some (Inr (?d ! i, run))" ..
  qed
qed

text \<open>
  A randomized runner of three cycles, as the factory makes it; the random source gives 7.
\<close>

theorem random_runner_cycle_witness:
  "spinner_runner_factory plain_utils
      \<lparr>spec_data = [[[[97::nat]]], [[[98]]], [[[99]]]], spec_natural = 1,
       spec_randomize = True, spec_cycles = Some 3, spec_length = Some 1,
       spec_frames = Some [1, 1, 1], spec_total_frames = Some 3\<rparr>
      [(Pause, [PInt 1, PInt 1], [])]
     = Inr \<lparr>run_spec = \<lparr>spec_data = [[[[97]]], [[[98]]], [[[99]]]], spec_natural = 1,
                         spec_randomize = True, spec_cycles = Some 3, spec_length = Some 1,
                         spec_frames = Some [1, 1, 1], spec_total_frames = Some 3\<rparr>,
            run_attrs = \<lparr>spec_data = [[[[97]]], [[[98]]], [[[99]]]], spec_natural = 1,
                         spec_randomize = True, spec_cycles = Some 3, spec_length = Some 1,
                         spec_frames = Some [1, 1, 1], spec_total_frames = Some 3\<rparr>,
            run_randomize = True, run_pos = 0\<rparr>
   \<and> spinner_runner
         \<lparr>run_spec = \<lparr>spec_data = [[[[97::nat]]], [[[98]]], [[[99]]]], spec_natural = 1,
                         spec_randomize = True, spec_cycles = Some 3, spec_length = Some 1,
                         spec_frames = Some [1, 1, 1], spec_total_frames = Some 3\<rparr>,
          run_attrs = \<lparr>spec_data = [[[[97]]], [[[98]]], [[[99]]]], spec_natural = 1,
                         spec_randomize = True, spec_cycles = Some 3, spec_length = Some 1,
                         spec_frames = Some [1, 1, 1], spec_total_frames = Some 3\<rparr>,
          run_randomize = True, run_pos = 0\<rparr> 7
       = Some (Inr ([[[98::nat]]],
           \<lparr>run_spec = \<lparr>spec_data = [[[[97::nat]]], [[[98]]], [[[99]]]], spec_natural = 1,
                         spec_randomize = True, spec_cycles = Some 3, spec_length = Some 1,
                         spec_frames = Some [1, 1, 1], spec_total_frames = Some 3\<rparr>,
            run_attrs = \<lparr>spec_data = [[[[97]]], [[[98]]], [[[99]]]], spec_natural = 1,
                         spec_randomize = True, spec_cycles = Some 3, spec_length = Some 1,
                         spec_frames = Some [1, 1, 1], spec_total_frames = Some 3\<rparr>,
            run_randomize = True, run_pos = 0\<rparr>))"
proof -
  let ?s = "\<lparr>spec_data = [[[[97::nat]]], [[[98]]], [[[99]]]], spec_natural = 1,
             spec_randomize = True, spec_cycles = Some 3, spec_length = Some 1,
             spec_frames = Some [1, 1, 1], spec_total_frames = Some 3\<rparr>"
  let ?r = "\<lparr>run_spec = ?s, run_attrs = ?s, run_randomize = True, run_pos = 0\<rparr>"
  have f: "spinner_runner_factory plain_utils ?s [(Pause, [PInt 1, PInt 1], [])] = Inr ?r"
    by (simp add: spinner_runner_factory_def pause_def py_or_def arg_def enumerate_eq_zip)
  have h: "run_randomize ?r" by simp
  from random_runner_cycle[OF h, of 7] f show ?thesis
    by (simp add: spinner_runner_def random_choice_def)
qed

section \<open>Properties of the controller\<close>

lemma isl_case_map [simp]:
  "isl (case x of Inl e \<Rightarrow> Inl e | Inr b \<Rightarrow> Inr (f b)) = isl x"
  by (cases x) simp_all

lemma bind_args_error: "bind_args ps args kwargs = Inl e \<Longrightarrow> e = TypeError"
  by (induction ps args kwargs arbitrary: e rule: bind_args.induct)
    (auto split: if_splits sum.splits option.splits)

lemma map_of_None_keys: "map_of kwargs name = None \<longleftrightarrow> name \<notin> fst ` set kwargs"
  by (simp add: map_of_eq_None_iff)

lemma bind_args_accepts:
  "distinct (map fst ps) \<Longrightarrow>
   \<not> isl (bind_args ps args kwargs) \<longleftrightarrow>
     length args \<le> length ps
     \<and> fst ` set kwargs \<subseteq> fst ` set (drop (length args) ps)
     \<and> (\<forall>(name, dflt)\<in>set (drop (length args) ps). dflt = None \<longrightarrow> name \<in> fst ` set kwargs)"
proof (induction ps args kwargs rule: bind_args.induct)
  case (1 kwargs)
  then show ?case by simp
next
  case (2 a as kwargs)
  then show ?case by simp
next
  case (3 name dflt ps a as kwargs)
  show ?case
  proof (cases "name \<in> fst ` set kwargs")
    case True
    from "3.prems" have "name \<notin> fst ` set ps" by simp
    then have "name \<notin> fst ` set (drop (length as) ps)"
      using set_drop_subset[of "length as" ps] by blast
    with True show ?thesis by auto
  next
    case False
    with "3.IH" "3.prems" show ?thesis by simp
  qed
next
  case (4 name dflt ps kwargs)
  from "4.prems" have fresh: "name \<notin> fst ` set ps" and d: "distinct (map fst ps)" by simp_all
  show ?case
  proof (cases "map_of kwargs name")
    case None
    then have nk: "name \<notin> fst ` set kwargs" by (simp add: map_of_None_keys)
    show ?thesis
    proof (cases dflt)
      case None
      with \<open>map_of kwargs name = None\<close> nk show ?thesis by auto
    next
      case (Some dv)
      from "4.IH"(1)[OF \<open>map_of kwargs name = None\<close> Some d]
      have "\<not> isl (bind_args ps [] kwargs) \<longleftrightarrow>
          fst ` set kwargs \<subseteq> fst ` set ps
          \<and> (\<forall>(name, dflt)\<in>set ps. dflt = None \<longrightarrow> name \<in> fst ` set kwargs)"
        by simp
      with \<open>map_of kwargs name = None\<close> Some nk show ?thesis by auto
    qed
  next
    case (Some v)
    then have k: "name \<in> fst ` set kwargs" by (metis map_of_None_keys option.distinct(1))
    let ?kw = "filter (\<lambda>kv. fst kv \<noteq> name) kwargs"
    have keys: "fst ` set ?kw = fst ` set kwargs - {name}" by auto
    from "4.IH"(2)[OF Some d]
    have "\<not> isl (bind_args ps [] ?kw) \<longleftrightarrow>
          fst ` set ?kw \<subseteq> fst ` set ps
          \<and> (\<forall>(name, dflt)\<in>set ps. dflt = None \<longrightarrow> name \<in> fst ` set ?kw)"
      by simp
    also have "\<dots> \<longleftrightarrow> fst ` set kwargs \<subseteq> insert name (fst ` set ps)
          \<and> (\<forall>(name, dflt)\<in>set ps. dflt = None \<longrightarrow> name \<in> fst ` set kwargs)"
      unfolding keys using fresh by (auto simp: rev_image_eqI)
    finally show ?thesis using Some k by simp
  qed
qed

lemma parameters_distinct: "distinct (map fst (parameters command))"
  by (cases command) simp_all

lemma parameters_spec: "\<exists>ps. parameters command = (''spec'', None) # ps"
  by (cases command) simp_all

lemma bind_command_accepts:
  "\<not> isl (bind_args (parameters command) (PInt 1 # args) kwargs) \<longleftrightarrow> accepts command args kwargs"
proof -
  from parameters_spec obtain ps where ps: "parameters command = (''spec'', None) # ps" by blast
  with parameters_distinct[of command] have d: "distinct (map fst ((''spec'', None) # ps))" by simp
  have "\<not> isl (bind_args ((''spec'', None) # ps) (PInt 1 # args) kwargs) \<longleftrightarrow>
     length (PInt 1 # args) \<le> length ((''spec'', None :: pyval option) # ps)
     \<and> fst ` set kwargs \<subseteq> fst ` set (drop (length (PInt 1 # args)) ((''spec'', None) # ps))
     \<and> (\<forall>(name, dflt)\<in>set (drop (length (PInt 1 # args)) ((''spec'', None) # ps)).
           dflt = None \<longrightarrow> name \<in> fst ` set kwargs)"
    by (rule bind_args_accepts[OF d])
  then show ?thesis unfolding ps accepts_def Let_def by (auto simp del: bind_args.simps)
qed

text \<open>
  C8: scheduling a command checks the arguments against its signature without the
  leading \<^verbatim>\<open>spec\<close>.  If they do not match, the call raises \<^verbatim>\<open>TypeError\<close> and there is no
  new controller to compile; if they match, the call returns a new controller in which
  the call is appended to the commands registered under the command's \<^verbatim>\<open>post_info\<close>,
  the commands under the other key and everything else being as before.
\<close>

theorem schedule_command_binds:
  "(\<not> accepts command args kwargs \<longrightarrow>
      schedule_command ctl command args kwargs = Inl TypeError)
   \<and> (accepts command args kwargs \<longrightarrow>
        (\<exists>ctl'. schedule_command ctl command args kwargs = Inr ctl'
           \<and> ctl_extra_commands ctl' (EXTRA_COMMANDS command)
               = ctl_extra_commands ctl (EXTRA_COMMANDS command) @ [(command, args, kwargs)]
           \<and> ctl_extra_commands ctl' (\<not> EXTRA_COMMANDS command)
               = ctl_extra_commands ctl (\<not> EXTRA_COMMANDS command)
           \<and> ctl_op_params ctl' = ctl_op_params ctl
           \<and> ctl_spinner_inner_factory ctl' = ctl_spinner_inner_factory ctl
           \<and> ctl_natural ctl' = ctl_natural ctl))"
proof (intro conjI impI)
  assume "\<not> accepts command args kwargs"
  then have "isl (bind_args (parameters command) (PInt 1 # args) kwargs)"
    by (simp add: bind_command_accepts[symmetric])
  then obtain e where e: "bind_args (parameters command) (PInt 1 # args) kwargs = Inl e"
    by (cases "bind_args (parameters command) (PInt 1 # args) kwargs") simp_all
  from bind_args_error[OF e] e show "schedule_command ctl command args kwargs = Inl TypeError"
    by (simp add: schedule_command_def)
next
  assume "accepts command args kwargs"
  then have "\<not> isl (bind_args (parameters command) (PInt 1 # args) kwargs)"
    by (simp add: bind_command_accepts)
  then obtain b where "bind_args (parameters command) (PInt 1 # args) kwargs = Inr b"
    by (cases "bind_args (parameters command) (PInt 1 # args) kwargs") simp_all
  then show "\<exists>ctl'. schedule_command ctl command args kwargs = Inr ctl'
           \<and> ctl_extra_commands ctl' (EXTRA_COMMANDS command)
               = ctl_extra_commands ctl (EXTRA_COMMANDS command) @ [(command, args, kwargs)]
           \<and> ctl_extra_commands ctl' (\<not> EXTRA_COMMANDS command)
               = ctl_extra_commands ctl (\<not> EXTRA_COMMANDS command)
           \<and> ctl_op_params ctl' = ctl_op_params ctl
           \<and> ctl_spinner_inner_factory ctl' = ctl_spinner_inner_factory ctl
           \<and> ctl_natural ctl' = ctl_natural ctl"
    by (simp add: schedule_command_def Let_def)
qed

text \<open>\<^verbatim>\<open>reshape()\<close> lacks its argument; \<^verbatim>\<open>pause(2, n_middle=3)\<close> is scheduled.\<close>

theorem schedule_command_binds_witness:
  "\<not> accepts Reshape [] []
   \<and> schedule_command
        \<lparr>ctl_natural = 2, ctl_spinner_inner_factory = (\<lambda>actual_length params. [] :: pystr list list list),
         ctl_op_params = [], ctl_extra_commands = (\<lambda>post_info. [])\<rparr> Reshape [] []
       = Inl TypeError
   \<and> accepts Pause [PInt 2] [(''n_middle'', PInt 3)]
   \<and> (\<exists>ctl'. schedule_command
        \<lparr>ctl_natural = 2, ctl_spinner_inner_factory = (\<lambda>actual_length params. [] :: pystr list list list),
         ctl_op_params = [], ctl_extra_commands = (\<lambda>post_info. [])\<rparr>
        Pause [PInt 2] [(''n_middle'', PInt 3)] = Inr ctl'
      \<and> ctl_extra_commands ctl' False = [(Pause, [PInt 2], [(''n_middle'', PInt 3)])]
      \<and> ctl_extra_commands ctl' True = [])"
proof -
  let ?c = "\<lparr>ctl_natural = 2, ctl_spinner_inner_factory = (\<lambda>actual_length params. [] :: pystr list list list),
         ctl_op_params = [], ctl_extra_commands = (\<lambda>post_info. [])\<rparr>"
  have n: "\<not> accepts Reshape [] []" by (simp add: accepts_def)
  have a: "accepts Pause [PInt 2] [(''n_middle'', PInt 3)]" by (simp add: accepts_def)
  from schedule_command_binds[of Reshape "[]" "[]" ?c, THEN conjunct1, rule_format, OF n]
    schedule_command_binds[of Pause "[PInt 2]" "[(''n_middle'', PInt 3)]" ?c,
      THEN conjunct2, rule_format, OF a]
    n a
  show ?thesis by auto
qed

text \<open>
  The dispatcher gives the compiler the commands registered with \<^verbatim>\<open>post_info\<close> true and
  the runner factory the others.
\<close>

lemma compiler_dispatcher_scheduled:
  assumes "schedule_command ctl command args kwargs = Inr ctl'"
  shows "compiler_dispatcher u ctl' actual_length
     = (case spinner_compiler u (ctl_spinner_inner_factory ctl actual_length (ctl_op_params ctl))
               (ctl_natural ctl)
               (if EXTRA_COMMANDS command
                then ctl_extra_commands ctl True @ [(command, args, kwargs)]
                else ctl_extra_commands ctl True) of
          (out, Inl e) \<Rightarrow> (out, Inl e)
        | (out, Inr spec) \<Rightarrow>
            (out, spinner_runner_factory u spec
               (if EXTRA_COMMANDS command
                then ctl_extra_commands ctl False
                else ctl_extra_commands ctl False @ [(command, args, kwargs)])))"
proof -
  from assms have c: "ctl' = ctl\<lparr>ctl_extra_commands :=
      (ctl_extra_commands ctl)
        (EXTRA_COMMANDS command :=
           ctl_extra_commands ctl (EXTRA_COMMANDS command) @ [(command, args, kwargs)])\<rparr>"
    by (cases "bind_args (parameters command) (PInt 1 # args) kwargs")
      (simp_all add: schedule_command_def Let_def)
  have t: "ctl_extra_commands ctl' True
      = (if EXTRA_COMMANDS command then ctl_extra_commands ctl True @ [(command, args, kwargs)]
         else ctl_extra_commands ctl True)"
    and f: "ctl_extra_commands ctl' False
      = (if EXTRA_COMMANDS command then ctl_extra_commands ctl False
         else ctl_extra_commands ctl False @ [(command, args, kwargs)])"
    and o: "ctl_spinner_inner_factory ctl' = ctl_spinner_inner_factory ctl"
      "ctl_op_params ctl' = ctl_op_params ctl" "ctl_natural ctl' = ctl_natural ctl"
    by (simp_all add: c)
  show ?thesis unfolding compiler_dispatcher_def by (simp only: t f o)
qed

text \<open>
  So with nothing scheduled the dispatcher ends in the \<^verbatim>\<open>NameError\<close> of the runner
  factory; a scheduled \<^verbatim>\<open>replace\<close> runs in the runner factory, after the compiler has
  compared the lengths; and a scheduled \<^verbatim>\<open>randomize()\<close> runs in the compiler, before the
  spec has its \<^verbatim>\<open>cycles\<close>.
\<close>

lemma compiler_dispatcher_nothing_scheduled:
  "compiler_dispatcher plain_utils bars PNone = ([], Inl NameError)"
  by (simp add: compiler_dispatcher_def bars_def spinner_compiler_def new_spec_def spec_info_def
      plain_utils_def spinner_runner_factory_def)

lemma compiler_dispatcher_replace_scheduled:
  "\<exists>ctl run. schedule_command bars Replace [PStr [45], PStr [61, 61]] [] = Inr ctl
     \<and> compiler_dispatcher plain_utils ctl PNone = ([], Inr run)
     \<and> spec_length (run_spec run) = Some 4
     \<and> spec_data (run_spec run)
         = [[[[91], [61], [61], [61], [61], [93]], [[91], [61], [61], [93]]]]"
  by (simp add: schedule_command_def compiler_dispatcher_def bars_def spinner_compiler_def
      new_spec_def spec_info_def plain_utils_def spinner_runner_factory_def replace_def arg_def
      str_replace.simps)

lemma compiler_dispatcher_randomize_scheduled:
  "\<exists>ctl. schedule_command bars Randomize [] [] = Inr ctl
     \<and> compiler_dispatcher plain_utils ctl PNone = ([], Inl AttributeError)"
  by (simp add: schedule_command_def compiler_dispatcher_def bars_def spinner_compiler_def
      new_spec_def plain_utils_def randomize_def py_or_def arg_def)

end
